theory Spec2Isabelle
  imports Complex_Main
begin

section \<open>Data: text objects, animations, framework calls\<close>

text \<open>
  Every chunk file defines one class \<open>VideoScene\<close> with one method \<open>construct\<close>. The method
  creates two \<open>Text\<close> objects, mutates one of them and hands animations of the other to the
  scene (\<open>self.play\<close>, \<open>self.wait\<close>). Objects are shared by reference between the script and
  the scene, so they live in an explicit store and the script holds references (\<open>nat\<close>).

  Numbers: the Python literals \<open>1.5\<close>, \<open>0.5\<close>, \<open>1\<close>, \<open>2\<close> and \<open>11\<close> are modelled as exact
  rationals (\<open>1\<close> and \<open>1.0\<close> are the same rational, and every literal is exactly representable
  in binary floating point); the font sizes \<open>40\<close> and \<open>24\<close> are Python ints.
\<close>

datatype color = BLUE | WHITE

record mobject =
  mtext :: string
  font_size :: int
  color :: color
  width :: rat

datatype animation =
    Write nat
  | Transform nat nat
  | FadeOut nat

text \<open>The trace of framework calls, each with the arguments the script passed.\<close>

datatype call =
    TextCall nat string int color
  | ScaleToFitWidthCall nat rat
  | PlayCall animation rat
  | WaitCall rat

text \<open>One segment of the produced video: how long it lasts and what is displayed at its end.\<close>

record frame =
  duration :: rat
  shown :: "mobject list"

text \<open>
  The state a run of \<open>construct\<close> acts on: the object store with its next free reference, the
  scene's list of displayed objects (\<open>Scene.mobjects\<close>), the trace of calls issued so far, the
  video produced so far, and the text layout of the rendering environment (the width a string
  has at a font size before any scaling), which the scripts do not determine.
\<close>

record scene_state =
  layout :: "string \<Rightarrow> int \<Rightarrow> rat"
  objs :: "nat \<rightharpoonup> mobject"
  next_ref :: nat
  mobjects :: "nat list"
  calls :: "call list"
  video :: "frame list"

section \<open>The framework primitives the scripts call\<close>

text \<open>
  The primitives \<open>Text\<close>, \<open>scale_to_fit_width\<close>, \<open>Scene.play\<close>, \<open>Scene.wait\<close>, \<open>Write\<close>,
  \<open>Transform\<close> and \<open>FadeOut\<close> belong to the external animation framework
  (\<open>from manim import *\<close>); their code is not in the repository. Each is given the effect
  the spec's words describe. Every primitive appends its call to the trace; \<open>play\<close> and
  \<open>wait\<close> append one segment to the video.
\<close>

text \<open>
  Modelled from the spec: the framework's \<open>Text\<close> constructor ("construct a text object from
  a literal string", with a font size and a color). The new object gets the next free
  reference and the width the layout gives its string; it is not displayed yet.
\<close>

definition Text :: "string \<Rightarrow> int \<Rightarrow> color \<Rightarrow> scene_state \<Rightarrow> nat \<times> scene_state" where
  "Text t fs c st =
     (next_ref st,
      st\<lparr>objs := (objs st)(next_ref st \<mapsto>
                \<lparr>mtext = t, font_size = fs, color = c, width = layout st t fs\<rparr>),
         next_ref := Suc (next_ref st),
         calls := calls st @ [TextCall (next_ref st) t fs c]\<rparr>)"

text \<open>
  Modelled from the spec: the framework's \<open>scale_to_fit_width\<close> ("scale the body text to
  fit a fixed width"). The object is mutated in place: its width becomes the given width.
\<close>

definition scale_to_fit_width :: "nat \<Rightarrow> rat \<Rightarrow> scene_state \<Rightarrow> scene_state" where
  "scale_to_fit_width r w st =
     st\<lparr>objs := (case objs st r of
                   None \<Rightarrow> objs st
                 | Some m \<Rightarrow> (objs st)(r \<mapsto> m\<lparr>width := w\<rparr>)),
        calls := calls st @ [ScaleToFitWidthCall r w]\<rparr>"

text \<open>
  Modelled from the spec: the scene's display list (the framework's \<open>Scene.add\<close> and
  \<open>Scene.remove\<close>). An object is displayed at most once; adding puts it last.
\<close>

definition add_mobject :: "nat \<Rightarrow> nat list \<Rightarrow> nat list" where
  "add_mobject r ms = filter (\<lambda>x. x \<noteq> r) ms @ [r]"

definition remove_mobject :: "nat \<Rightarrow> nat list \<Rightarrow> nat list" where
  "remove_mobject r ms = filter (\<lambda>x. x \<noteq> r) ms"

text \<open>
  Modelled from the spec: the effect of the framework's animations once played. \<open>Write\<close>
  "reveals" its object; \<open>Transform\<close> "morphs the title into the body text": the first object
  stays the displayed one and takes the appearance of the second, which is not displayed;
  \<open>FadeOut\<close> "fades out" its object, which leaves the display.
\<close>

fun animate :: "animation \<Rightarrow> scene_state \<Rightarrow> scene_state" where
  "animate (Write t) st = st\<lparr>mobjects := add_mobject t (mobjects st)\<rparr>"
| "animate (Transform t c) st =
     st\<lparr>objs := (objs st)(t := objs st c), mobjects := add_mobject t (mobjects st)\<rparr>"
| "animate (FadeOut t) st = st\<lparr>mobjects := remove_mobject t (mobjects st)\<rparr>"

text \<open>
  Modelled from the spec: what the framework's renderer draws, the displayed objects as they
  are in the store.
\<close>

definition snapshot :: "scene_state \<Rightarrow> mobject list" where
  "snapshot st = List.map_filter (objs st) (mobjects st)"

text \<open>
  Modelled from the spec: the framework's \<open>Scene.play\<close> with its \<open>run_time\<close> keyword ("fixed
  duration"). The segment records the display at the end of the animation.
\<close>

definition play :: "animation \<Rightarrow> rat \<Rightarrow> scene_state \<Rightarrow> scene_state" where
  "play a run_time st =
     (let st' = animate a st
      in st'\<lparr>calls := calls st' @ [PlayCall a run_time],
             video := video st' @ [\<lparr>duration = run_time, shown = snapshot st'\<rparr>]\<rparr>)"

text \<open>
  Modelled from the spec: the framework's \<open>Scene.wait\<close> ("hold"). Nothing changes but the
  trace and the video.
\<close>

definition wait :: "rat \<Rightarrow> scene_state \<Rightarrow> scene_state" where
  "wait d st =
     st\<lparr>calls := calls st @ [WaitCall d],
        video := video st @ [\<lparr>duration = d, shown = snapshot st\<rparr>]\<rparr>"

text \<open>
  Modelled from the spec: the scene the framework instantiates before it calls \<open>construct\<close>
  ("each script instantiates one scene object"): nothing stored, displayed or issued.
\<close>

definition new_scene :: "(string \<Rightarrow> int \<Rightarrow> rat) \<Rightarrow> scene_state" where
  "new_scene lay =
     \<lparr>layout = lay, objs = Map.empty, next_ref = 0, mobjects = [], calls = [], video = []\<rparr>"

section \<open>The four scripts\<close>

text \<open>\<open>chunk_8.py\<close>, \<open>VideoScene.construct\<close>.\<close>

definition construct_8 :: "scene_state \<Rightarrow> scene_state" where
  "construct_8 self =
     (let (title, s1) = Text ''Machine Learning Models'' 40 BLUE self;
          (content, s2) = Text ''Machine learning models are like the brain of the child. They learn from data and make predictions. ...'' 24 WHITE s1;
          s3 = scale_to_fit_width content 11 s2;
          s4 = play (Write title) (3 / 2) s3;
          s5 = wait (1 / 2) s4;
          s6 = play (Transform title content) 1 s5;
          s7 = wait 2 s6;
          s8 = play (FadeOut title) (1 / 2) s7
      in s8)"

text \<open>\<open>chunk_9.py\<close>, \<open>VideoScene.construct\<close>.\<close>

definition construct_9 :: "scene_state \<Rightarrow> scene_state" where
  "construct_9 self =
     (let (title, s1) = Text ''Real-World Applications'' 40 BLUE self;
          (content, s2) = Text ''Machine learning is used in many real-world applications, such as image recognition, natural languag...'' 24 WHITE s1;
          s3 = scale_to_fit_width content 11 s2;
          s4 = play (Write title) (3 / 2) s3;
          s5 = wait (1 / 2) s4;
          s6 = play (Transform title content) 1 s5;
          s7 = wait 2 s6;
          s8 = play (FadeOut title) (1 / 2) s7
      in s8)"

text \<open>\<open>chunk_10.py\<close>, \<open>VideoScene.construct\<close>.\<close>

definition construct_10 :: "scene_state \<Rightarrow> scene_state" where
  "construct_10 self =
     (let (title, s1) = Text ''Conclusion'' 40 BLUE self;
          (content, s2) = Text ''In conclusion, machine learning is a powerful tool that can learn from data and make predictions. It...'' 24 WHITE s1;
          s3 = scale_to_fit_width content 11 s2;
          s4 = play (Write title) (3 / 2) s3;
          s5 = wait (1 / 2) s4;
          s6 = play (Transform title content) 1 s5;
          s7 = wait 2 s6;
          s8 = play (FadeOut title) (1 / 2) s7
      in s8)"

text \<open>\<open>chunk_11.py\<close>, \<open>VideoScene.construct\<close>.\<close>

definition construct_11 :: "scene_state \<Rightarrow> scene_state" where
  "construct_11 self =
     (let (title, s1) = Text ''What is Machine Learning?'' 40 BLUE self;
          (content, s2) = Text ''Imagine you're trying to teach a child to recognize different animals. You show them pictures of cat...'' 24 WHITE s1;
          s3 = scale_to_fit_width content 11 s2;
          s4 = play (Write title) (3 / 2) s3;
          s5 = wait (1 / 2) s4;
          s6 = play (Transform title content) 1 s5;
          s7 = wait 2 s6;
          s8 = play (FadeOut title) (1 / 2) s7
      in s8)"

text \<open>The renderer is pointed at one of the four files.\<close>

datatype chunk = Chunk8 | Chunk9 | Chunk10 | Chunk11

fun construct_chunk :: "chunk \<Rightarrow> scene_state \<Rightarrow> scene_state" where
  "construct_chunk Chunk8 = construct_8"
| "construct_chunk Chunk9 = construct_9"
| "construct_chunk Chunk10 = construct_10"
| "construct_chunk Chunk11 = construct_11"

declare construct_chunk.simps [simp del]

text \<open>The string literals of lines 6 and 7 of each file, for stating properties of them.\<close>

fun title_text :: "chunk \<Rightarrow> string" where
  "title_text Chunk8 = ''Machine Learning Models''"
| "title_text Chunk9 = ''Real-World Applications''"
| "title_text Chunk10 = ''Conclusion''"
| "title_text Chunk11 = ''What is Machine Learning?''"

fun content_text :: "chunk \<Rightarrow> string" where
  "content_text Chunk8 = ''Machine learning models are like the brain of the child. They learn from data and make predictions. ...''"
| "content_text Chunk9 = ''Machine learning is used in many real-world applications, such as image recognition, natural languag...''"
| "content_text Chunk10 = ''In conclusion, machine learning is a powerful tool that can learn from data and make predictions. It...''"
| "content_text Chunk11 = ''Imagine you're trying to teach a child to recognize different animals. You show them pictures of cat...''"

section \<open>Observations of a run\<close>

text \<open>What a run of \<open>f\<close> from \<open>s\<close> adds to the trace and to the video.\<close>

definition issued :: "(scene_state \<Rightarrow> scene_state) \<Rightarrow> scene_state \<Rightarrow> call list" where
  "issued f s = drop (length (calls s)) (calls (f s))"

definition filmed :: "(scene_state \<Rightarrow> scene_state) \<Rightarrow> scene_state \<Rightarrow> frame list" where
  "filmed f s = drop (length (video s)) (video (f s))"

fun call_duration :: "call \<Rightarrow> rat" where
  "call_duration (PlayCall a run_time) = run_time"
| "call_duration (WaitCall d) = d"
| "call_duration (TextCall r t fs c) = 0"
| "call_duration (ScaleToFitWidthCall r w) = 0"

definition scripted_duration :: "call list \<Rightarrow> rat" where
  "scripted_duration cs = sum_list (map call_duration cs)"

text \<open>
  The literals a call carries, by the role of the argument: the references are not literals
  of the file, every other argument is.
\<close>

datatype literal =
    TextLit string
  | FontSizeLit int
  | ColorLit color
  | WidthLit rat
  | DurationLit rat

fun literals_of :: "call \<Rightarrow> literal list" where
  "literals_of (TextCall r t fs c) = [TextLit t, FontSizeLit fs, ColorLit c]"
| "literals_of (ScaleToFitWidthCall r w) = [WidthLit w]"
| "literals_of (PlayCall a run_time) = [DurationLit run_time]"
| "literals_of (WaitCall d) = [DurationLit d]"

definition literals :: "call list \<Rightarrow> literal list" where
  "literals cs = concat (map literals_of cs)"

fun is_text_literal :: "literal \<Rightarrow> bool" where
  "is_text_literal (TextLit t) = True"
| "is_text_literal (FontSizeLit fs) = False"
| "is_text_literal (ColorLit c) = False"
| "is_text_literal (WidthLit w) = False"
| "is_text_literal (DurationLit d) = False"

definition text_literals :: "literal list \<Rightarrow> string list" where
  "text_literals ls = [t. TextLit t \<leftarrow> ls]"

text \<open>
  The spec's list of entities, read as generously as its words allow: two strings, one
  color value, one font size, the five listed durations (four distinct values), and nothing
  else. Repeated values count once.
\<close>

definition spec_entities :: "literal list \<Rightarrow> bool" where
  "spec_entities ls \<longleftrightarrow>
     length [t. TextLit t \<leftarrow> ls] = 2
     \<and> length (remdups [c. ColorLit c \<leftarrow> ls]) = 1
     \<and> length (remdups [fs. FontSizeLit fs \<leftarrow> ls]) = 1
     \<and> [d. DurationLit d \<leftarrow> ls] = [3 / 2, 1 / 2, 1, 2, 1 / 2]
     \<and> length (remdups [d. DurationLit d \<leftarrow> ls]) = 4
     \<and> [w. WidthLit w \<leftarrow> ls] = []"

text \<open>The kind of a call and its timing parameter, forgetting objects and contents.\<close>

datatype op_kind = TextOp | ScaleOp | PlayWriteOp | PlayTransformOp | PlayFadeOutOp | WaitOp

fun shape :: "call \<Rightarrow> op_kind \<times> rat option" where
  "shape (TextCall r t fs c) = (TextOp, None)"
| "shape (ScaleToFitWidthCall r w) = (ScaleOp, None)"
| "shape (PlayCall (Write t) run_time) = (PlayWriteOp, Some run_time)"
| "shape (PlayCall (Transform t c) run_time) = (PlayTransformOp, Some run_time)"
| "shape (PlayCall (FadeOut t) run_time) = (PlayFadeOutOp, Some run_time)"
| "shape (WaitCall d) = (WaitOp, Some d)"

fun is_timed :: "call \<Rightarrow> bool" where
  "is_timed (PlayCall a run_time) = True"
| "is_timed (WaitCall d) = True"
| "is_timed (TextCall r t fs c) = False"
| "is_timed (ScaleToFitWidthCall r w) = False"

text \<open>The animations handed to \<open>play\<close>, and the text objects created, in trace order.\<close>

definition played :: "call list \<Rightarrow> animation list" where
  "played cs = [a. PlayCall a run_time \<leftarrow> cs]"

definition text_objects :: "call list \<Rightarrow> (nat \<times> string) list" where
  "text_objects cs = [(r, t). TextCall r t fs c \<leftarrow> cs]"

text \<open>The object an animation acts on, and the object a \<open>Transform\<close> takes its shape from.\<close>

fun subject :: "animation \<Rightarrow> nat" where
  "subject (Write t) = t"
| "subject (Transform t c) = t"
| "subject (FadeOut t) = t"

fun morph_targets :: "animation \<Rightarrow> nat list" where
  "morph_targets (Transform t c) = [c]"
| "morph_targets (Write t) = []"
| "morph_targets (FadeOut t) = []"

text \<open>A concrete layout for running the scripts: every glyph is 1/80 of the font size wide.\<close>

definition monospace_layout :: "string \<Rightarrow> int \<Rightarrow> rat" where
  "monospace_layout t fs = of_nat (length t) * of_int fs / 80"

section \<open>The template the four scripts instantiate\<close>

text \<open>
  The spec's reading of the files: one template, parameterized by the title text and the body
  text. It is compared with the four scripts below.
\<close>

definition scene_template :: "string \<Rightarrow> string \<Rightarrow> scene_state \<Rightarrow> scene_state" where
  "scene_template t b self =
     (let (title, s1) = Text t 40 BLUE self;
          (content, s2) = Text b 24 WHITE s1;
          s3 = scale_to_fit_width content 11 s2;
          s4 = play (Write title) (3 / 2) s3;
          s5 = wait (1 / 2) s4;
          s6 = play (Transform title content) 1 s5;
          s7 = wait 2 s6;
          s8 = play (FadeOut title) (1 / 2) s7
      in s8)"

definition script :: "nat \<Rightarrow> string \<Rightarrow> string \<Rightarrow> call list" where
  "script r t b =
     [TextCall r t 40 BLUE,
      TextCall (Suc r) b 24 WHITE,
      ScaleToFitWidthCall (Suc r) 11,
      PlayCall (Write r) (3 / 2),
      WaitCall (1 / 2),
      PlayCall (Transform r (Suc r)) 1,
      WaitCall 2,
      PlayCall (FadeOut r) (1 / 2)]"


text \<open>The video a run from an empty scene produces: the title, then the body shape, then nothing.\<close>

definition title_mobject :: "(string \<Rightarrow> int \<Rightarrow> rat) \<Rightarrow> string \<Rightarrow> mobject" where
  "title_mobject lay t = \<lparr>mtext = t, font_size = 40, color = BLUE, width = lay t 40\<rparr>"

definition body_mobject :: "string \<Rightarrow> mobject" where
  "body_mobject b = \<lparr>mtext = b, font_size = 24, color = WHITE, width = 11\<rparr>"

definition film :: "(string \<Rightarrow> int \<Rightarrow> rat) \<Rightarrow> string \<Rightarrow> string \<Rightarrow> frame list" where
  "film lay t b =
     [\<lparr>duration = 3 / 2, shown = [title_mobject lay t]\<rparr>,
      \<lparr>duration = 1 / 2, shown = [title_mobject lay t]\<rparr>,
      \<lparr>duration = 1, shown = [body_mobject b]\<rparr>,
      \<lparr>duration = 2, shown = [body_mobject b]\<rparr>,
      \<lparr>duration = 1 / 2, shown = []\<rparr>]"

section \<open>The script as a step relation\<close>

text \<open>
  The same method, one source line at a time. A configuration holds the index of the next
  statement of the body of \<open>construct\<close> (0 for line 6, 8 after line 19), the two local
  variables \<open>title\<close> and \<open>content\<close> (unbound until assigned) and the state the framework
  calls act on. Each statement of the file is one rule; the literals are those of chunk \<open>k\<close>.
  A statement that reads an unbound local has no rule (Python raises \<open>NameError\<close>).
\<close>

record config =
  pc :: nat
  title :: "nat option"
  content :: "nat option"
  scene :: scene_state

definition start :: "scene_state \<Rightarrow> config" where
  "start s = \<lparr>pc = 0, title = None, content = None, scene = s\<rparr>"

inductive step :: "chunk \<Rightarrow> config \<Rightarrow> config \<Rightarrow> bool" for k :: chunk where
  line_6: "pc c = 0 \<Longrightarrow> Text (title_text k) 40 BLUE (scene c) = (r, st) \<Longrightarrow>
           step k c (c\<lparr>pc := 1, title := Some r, scene := st\<rparr>)"
| line_7: "pc c = 1 \<Longrightarrow> Text (content_text k) 24 WHITE (scene c) = (r, st) \<Longrightarrow>
           step k c (c\<lparr>pc := 2, content := Some r, scene := st\<rparr>)"
| line_8: "pc c = 2 \<Longrightarrow> content c = Some b \<Longrightarrow>
           step k c (c\<lparr>pc := 3, scene := scale_to_fit_width b 11 (scene c)\<rparr>)"
| line_11: "pc c = 3 \<Longrightarrow> title c = Some t \<Longrightarrow>
           step k c (c\<lparr>pc := 4, scene := play (Write t) (3 / 2) (scene c)\<rparr>)"
| line_12: "pc c = 4 \<Longrightarrow>
           step k c (c\<lparr>pc := 5, scene := wait (1 / 2) (scene c)\<rparr>)"
| line_15: "pc c = 5 \<Longrightarrow> title c = Some t \<Longrightarrow> content c = Some b \<Longrightarrow>
           step k c (c\<lparr>pc := 6, scene := play (Transform t b) 1 (scene c)\<rparr>)"
| line_16: "pc c = 6 \<Longrightarrow>
           step k c (c\<lparr>pc := 7, scene := wait 2 (scene c)\<rparr>)"
| line_19: "pc c = 7 \<Longrightarrow> title c = Some t \<Longrightarrow>
           step k c (c\<lparr>pc := 8, scene := play (FadeOut t) (1 / 2) (scene c)\<rparr>)"

code_pred (modes: i \<Rightarrow> i \<Rightarrow> o \<Rightarrow> bool) step .

text \<open>A run from a configuration: statements are executed until the method returns.\<close>

inductive run :: "chunk \<Rightarrow> config \<Rightarrow> scene_state \<Rightarrow> bool" for k :: chunk where
  returned: "pc c = 8 \<Longrightarrow> run k c (scene c)"
| stepped: "step k c c' \<Longrightarrow> run k c' t \<Longrightarrow> run k c t"

code_pred (modes: i \<Rightarrow> i \<Rightarrow> o \<Rightarrow> bool) run .

text \<open>The calls a run from \<open>s\<close> to \<open>t\<close> has added to the trace.\<close>

definition trace_added :: "scene_state \<Rightarrow> scene_state \<Rightarrow> call list" where
  "trace_added s t = drop (length (calls s)) (calls t)"

section \<open>Basic facts\<close>

lemma construct_is_template:
  "construct_chunk k = scene_template (title_text k) (content_text k)"
  by (cases k) (simp_all add: construct_chunk.simps fun_eq_iff construct_8_def construct_9_def
      construct_10_def construct_11_def scene_template_def)

lemma template_calls:
  "calls (scene_template t b s) = calls s @ script (next_ref s) t b"
  by (simp add: scene_template_def script_def Text_def scale_to_fit_width_def play_def
      wait_def Let_def)

lemma template_mobjects:
  "mobjects (scene_template t b s) = filter (\<lambda>x. x \<noteq> next_ref s) (mobjects s)"
  by (simp add: scene_template_def Text_def scale_to_fit_width_def play_def
      wait_def Let_def add_mobject_def remove_mobject_def)



lemma template_video:
  "mobjects s = [] \<Longrightarrow> video (scene_template t b s) = video s @ film (layout s) t b"
  by (simp add: scene_template_def Text_def scale_to_fit_width_def play_def
      wait_def Let_def add_mobject_def remove_mobject_def snapshot_def
      film_def title_mobject_def body_mobject_def)

lemma issued_template:
  "issued (scene_template t b) s = script (next_ref s) t b"
  by (simp add: issued_def template_calls)

lemma filmed_template:
  "mobjects s = [] \<Longrightarrow> filmed (scene_template t b) s = film (layout s) t b"
  by (simp add: filmed_def template_video)

lemma issued_construct:
  "issued (construct_chunk k) s = script (next_ref s) (title_text k) (content_text k)"
  by (simp add: construct_is_template issued_template)

lemma filmed_construct:
  "mobjects s = [] \<Longrightarrow>
   filmed (construct_chunk k) s = film (layout s) (title_text k) (content_text k)"
  by (simp add: construct_is_template filmed_template)

lemma construct_mobjects:
  "mobjects (construct_chunk k s) = filter (\<lambda>x. x \<noteq> next_ref s) (mobjects s)"
  by (simp add: construct_is_template template_mobjects)




lemma title_not_content: "title_text k \<noteq> content_text k"
  by (cases k) simp_all

lemma texts_nonempty: "title_text k \<noteq> [] \<and> content_text k \<noteq> []"
  by (cases k) simp_all

lemma title_text_inj: "(title_text k = title_text k') = (k = k')"
  by (cases k; cases k') simp_all

lemma content_text_inj: "(content_text k = content_text k') = (k = k')"
  by (cases k; cases k') simp_all

subsection \<open>Runs of the step relation\<close>

lemma step_pc: "step k c c' \<Longrightarrow> pc c < 8 \<and> pc c' = Suc (pc c)"
  by (induction rule: step.induct) simp_all

lemma step_deterministic: "step k c c1 \<Longrightarrow> step k c c2 \<Longrightarrow> c1 = c2"
  by (induction rule: step.induct) (auto elim!: step.cases)

lemma run_deterministic: "run k c t \<Longrightarrow> run k c t' \<Longrightarrow> t = t'"
proof (induction arbitrary: t' rule: run.induct)
  case (returned c)
  from returned.prems show ?case
  proof (cases rule: run.cases)
    case returned
    then show ?thesis by simp
  next
    case (stepped c')
    with \<open>pc c = 8\<close> step_pc [of k c c'] show ?thesis by simp
  qed
next
  case (stepped c c1 t)
  from stepped.prems show ?case
  proof (cases rule: run.cases)
    case returned
    with stepped.hyps(1) step_pc [of k c c1] show ?thesis by simp
  next
    case (stepped c2)
    with stepped.hyps(1) step_deterministic have "c2 = c1" by blast
    with stepped show ?thesis using \<open>\<And>t'. run k c1 t' \<Longrightarrow> t = t'\<close> by blast
  qed
qed

lemma run_template:
  "run k (start s) (scene_template (title_text k) (content_text k) s)"
  unfolding scene_template_def Let_def split_def start_def
  apply (rule run.stepped, rule line_6, simp, rule surjective_pairing)
  apply (rule run.stepped, rule line_7, simp, simp, rule surjective_pairing)
  apply (rule run.stepped, rule line_8, simp, simp)
  apply (rule run.stepped, rule line_11, simp, simp)
  apply (rule run.stepped, rule line_12, simp)
  apply (rule run.stepped, rule line_15, simp, simp, simp)
  apply (rule run.stepped, rule line_16, simp)
  apply (rule run.stepped, rule line_19, simp, simp)
  apply simp
  apply (rule run.returned [where c = "\<lparr>pc = 8, title = _, content = _, scene = _\<rparr>", simplified])
  done

lemma run_construct: "run k (start s) (construct_chunk k s)"
  by (simp add: construct_is_template run_template)

section \<open>The claims\<close>

text \<open>
  C1. For every chunk, \<open>construct\<close> issues exactly this sequence of framework calls, whatever
  the state it starts from: the title text object and the body text object are built from
  the two string literals, the body is scaled to the fixed width 11, the title is revealed
  with \<open>Write\<close> (run time 1.5), the scene waits 0.5, the title is morphed into the body with
  \<open>Transform\<close> (run time 1), the scene waits 2, and the title is faded out (run time 0.5).
  The list is the whole of what the run adds to the trace, so there is no other call.
\<close>

theorem construct_call_sequence:
  "issued (construct_chunk k) s =
     [TextCall (next_ref s) (title_text k) 40 BLUE,
      TextCall (Suc (next_ref s)) (content_text k) 24 WHITE,
      ScaleToFitWidthCall (Suc (next_ref s)) 11,
      PlayCall (Write (next_ref s)) (3 / 2),
      WaitCall (1 / 2),
      PlayCall (Transform (next_ref s) (Suc (next_ref s))) 1,
      WaitCall 2,
      PlayCall (FadeOut (next_ref s)) (1 / 2)]"
  by (simp add: issued_construct script_def)

text \<open>
  C2. For every chunk, the run times and wait durations issued by \<open>construct\<close> add up to
  exactly 11/2 = 5.5 seconds, which is 1.5 + 0.5 + 1 + 2 + 0.5, in rational arithmetic.
\<close>

theorem construct_scripted_duration:
  "scripted_duration (issued (construct_chunk k) s) = 11 / 2
   \<and> scripted_duration (issued (construct_chunk k) s) = 3 / 2 + 1 / 2 + 1 + 2 + 1 / 2"
  by (simp add: issued_construct script_def scripted_duration_def)

text \<open>
  C3. For every chunk, run on an empty scene: the calls issued before the first \<open>play\<close> or
  \<open>wait\<close> are the two text constructions and the scaling of the body object (the second
  text object) to width 11, so the body is scaled before anything is animated; in every
  segment of the video, a displayed object that carries the body text is at most 11 wide;
  and the body text is displayed in some segment.
\<close>

theorem body_scaled_before_shown:
  assumes "mobjects s = []"
  shows "text_objects (issued (construct_chunk k) s)
           = [(next_ref s, title_text k), (Suc (next_ref s), content_text k)]
         \<and> takeWhile (\<lambda>c. \<not> is_timed c) (issued (construct_chunk k) s)
           = [TextCall (next_ref s) (title_text k) 40 BLUE,
              TextCall (Suc (next_ref s)) (content_text k) 24 WHITE,
              ScaleToFitWidthCall (Suc (next_ref s)) 11]
         \<and> (\<forall>f \<in> set (filmed (construct_chunk k) s). \<forall>m \<in> set (shown f).
               mtext m = content_text k \<longrightarrow> width m \<le> 11)
         \<and> (\<exists>f \<in> set (filmed (construct_chunk k) s). \<exists>m \<in> set (shown f).
               mtext m = content_text k)"
  using assms title_not_content [of k]
  by (simp add: issued_construct script_def text_objects_def filmed_construct film_def
      title_mobject_def body_mobject_def)

text \<open>
  Chunk 8 on a fresh scene with the monospace layout: the title is 23/2 wide, and the two
  segments that display the body text display it 11 wide.
\<close>

theorem body_scaled_before_shown_witness:
  "mobjects (new_scene monospace_layout) = []
   \<and> map (map (\<lambda>m. mtext m = content_text Chunk8) \<circ> shown)
        (filmed (construct_chunk Chunk8) (new_scene monospace_layout))
       = [[False], [False], [True], [True], []]
   \<and> map (map width \<circ> shown) (filmed (construct_chunk Chunk8) (new_scene monospace_layout))
       = [[23 / 2], [23 / 2], [11], [11], []]"
  using body_scaled_before_shown [of "new_scene monospace_layout" Chunk8]
  by (simp add: new_scene_def filmed_construct film_def title_mobject_def body_mobject_def
      monospace_layout_def)

text \<open>
  C4, as the spec states it, fails. The literals of \<open>chunk_8.py\<close> are not "a title string, a
  body string, a color value, a font size and the listed durations" only: there are two
  color values, two font sizes, and a fit width that the list does not mention.
\<close>

theorem spec_entities_counterexample:
  "\<not> spec_entities (literals (issued (construct_chunk Chunk8) (new_scene monospace_layout)))"
  by (simp add: issued_construct script_def literals_def spec_entities_def)

text \<open>
  C4, amended. For every chunk, the literals the file passes to the framework are exactly:
  a title string with font size 40 and color \<open>BLUE\<close>, a body string with font size 24 and
  color \<open>WHITE\<close>, the fit width 11, and the five durations 1.5 (write), 0.5 (wait),
  1 (transform), 2 (wait), 0.5 (fade).
\<close>

theorem construct_literals:
  "literals (issued (construct_chunk k) s)
     = [TextLit (title_text k), FontSizeLit 40, ColorLit BLUE,
        TextLit (content_text k), FontSizeLit 24, ColorLit WHITE,
        WidthLit 11,
        DurationLit (3 / 2), DurationLit (1 / 2), DurationLit 1, DurationLit 2,
        DurationLit (1 / 2)]"
  by (simp add: issued_construct script_def literals_def)

text \<open>
  C5. Every chunk's \<open>construct\<close> is the template instantiated with its title and body
  strings, and for every pair of chunks (and any two start states) the sequences of
  operations agree in the kinds of calls, their order and their timing parameters.
\<close>

theorem construct_same_template:
  "construct_chunk k = scene_template (title_text k) (content_text k)
   \<and> map shape (issued (construct_chunk k) s)
       = map shape (issued (construct_chunk k') s')
   \<and> map shape (issued (construct_chunk k) s)
       = [(TextOp, None), (TextOp, None), (ScaleOp, None), (PlayWriteOp, Some (3 / 2)),
          (WaitOp, Some (1 / 2)), (PlayTransformOp, Some 1), (WaitOp, Some 2),
          (PlayFadeOutOp, Some (1 / 2))]"
  by (simp add: construct_is_template issued_template script_def)

text \<open>
  C6. For every chunk, the two string literals passed to the text constructors (the title
  and the body) are non-empty.
\<close>

theorem text_literals_nonempty:
  "text_literals (literals (issued (construct_chunk k) s)) = [title_text k, content_text k]
   \<and> [] \<notin> set (text_literals (literals (issued (construct_chunk k) s)))"
  using texts_nonempty [of k]
  by (auto simp add: issued_construct script_def literals_def text_literals_def)

text \<open>
  C7. For every chunk, \<open>construct\<close> is deterministic. Run statement by statement, any two runs
  from the same start state end in the same state and have added the same calls, with the
  same arguments in the same order, to the trace: at every statement exactly one rule
  applies and none applies after the last. That state is the one the method computes.
\<close>

theorem construct_runs_deterministic:
  assumes "run k (start s) t" and "run k (start s) t'"
  shows "t = t'
         \<and> trace_added s t = trace_added s t'
         \<and> t = construct_chunk k s
         \<and> trace_added s t = issued (construct_chunk k) s"
proof -
  from assms have same: "t = t'"
    by (rule run_deterministic)
  from assms(1) run_construct [of k s] have "t = construct_chunk k s"
    by (rule run_deterministic)
  with same show ?thesis
    by (simp add: trace_added_def issued_def)
qed

text \<open>
  Chunk 9 from a fresh scene: the state the method returns and the state reached by applying
  the eight calls by hand, with the title at reference 0 and the body at reference 1, are
  both ends of runs, hence equal.
\<close>

theorem construct_runs_deterministic_witness:
  "run Chunk9 (start (new_scene monospace_layout))
     (construct_chunk Chunk9 (new_scene monospace_layout))
   \<and> run Chunk9 (start (new_scene monospace_layout))
     (play (FadeOut 0) (1 / 2) (wait 2 (play (Transform 0 1) 1 (wait (1 / 2)
       (play (Write 0) (3 / 2) (scale_to_fit_width 1 11
         (snd (Text (content_text Chunk9) 24 WHITE
           (snd (Text (title_text Chunk9) 40 BLUE (new_scene monospace_layout)))))))))))
   \<and> construct_chunk Chunk9 (new_scene monospace_layout)
     = play (FadeOut 0) (1 / 2) (wait 2 (play (Transform 0 1) 1 (wait (1 / 2)
       (play (Write 0) (3 / 2) (scale_to_fit_width 1 11
         (snd (Text (content_text Chunk9) 24 WHITE
           (snd (Text (title_text Chunk9) 40 BLUE (new_scene monospace_layout))))))))))"
proof -
  let ?N = "new_scene monospace_layout"
  let ?T = "play (FadeOut 0) (1 / 2) (wait 2 (play (Transform 0 1) 1 (wait (1 / 2)
       (play (Write 0) (3 / 2) (scale_to_fit_width 1 11
         (snd (Text (content_text Chunk9) 24 WHITE
           (snd (Text (title_text Chunk9) 40 BLUE ?N)))))))))"
  have r1: "run Chunk9 (start ?N) (construct_chunk Chunk9 ?N)"
    by (rule run_construct)
  have "fst (Text (title_text Chunk9) 40 BLUE ?N) = 0"
    by (simp add: Text_def new_scene_def)
  moreover have "fst (Text (content_text Chunk9) 24 WHITE
      (snd (Text (title_text Chunk9) 40 BLUE ?N))) = 1"
    by (simp add: Text_def new_scene_def)
  ultimately have "scene_template (title_text Chunk9) (content_text Chunk9) ?N = ?T"
    by (simp add: scene_template_def Let_def split_def)
  with run_template [of Chunk9 ?N] have r2: "run Chunk9 (start ?N) ?T"
    by simp
  from construct_runs_deterministic [OF r1 r2] r1 r2 show ?thesis
    by simp
qed


text \<open>
  C9. In every chunk, the three animations passed to \<open>play\<close> all act on the title object
  (the first text object); the body object (the second) occurs in them only once, as the
  shape the \<open>Transform\<close> morphs into. The run removes the title from the display and changes
  nothing else there; from an empty scene, every segment before the fade-out displays
  exactly one object, the last displays none, and the scene ends with nothing displayed.
\<close>

theorem title_only_animated:
  "text_objects (issued (construct_chunk k) s)
     = [(next_ref s, title_text k), (Suc (next_ref s), content_text k)]
   \<and> map subject (played (issued (construct_chunk k) s)) = [next_ref s, next_ref s, next_ref s]
   \<and> concat (map morph_targets (played (issued (construct_chunk k) s))) = [Suc (next_ref s)]
   \<and> mobjects (construct_chunk k s) = filter (\<lambda>x. x \<noteq> next_ref s) (mobjects s)
   \<and> (mobjects s = [] \<longrightarrow>
        map (length \<circ> shown) (filmed (construct_chunk k) s) = [1, 1, 1, 1, 0]
        \<and> mobjects (construct_chunk k s) = [])"
  by (simp add: issued_construct script_def text_objects_def played_def filmed_construct
      film_def construct_mobjects)

theorem title_only_animated_witness:
  "mobjects (new_scene monospace_layout) = []
   \<and> map (length \<circ> shown) (filmed (construct_chunk Chunk11) (new_scene monospace_layout))
       = [1, 1, 1, 1, 0]
   \<and> mobjects (construct_chunk Chunk11 (new_scene monospace_layout)) = []"
  using title_only_animated [of Chunk11 "new_scene monospace_layout"]
  by (simp add: new_scene_def)

text \<open>
  C10. Across the four chunks every literal that is not a string is the same: font size 40
  and \<open>BLUE\<close> for the title, font size 24 and \<open>WHITE\<close> for the body, fit width 11, and the
  timings 1.5, 0.5, 1, 2, 0.5. The string literals are the title and the body, and they are
  what tells two chunks apart.
\<close>

theorem non_string_literals_identical:
  "filter (\<lambda>l. \<not> is_text_literal l) (literals (issued (construct_chunk k) s))
     = [FontSizeLit 40, ColorLit BLUE, FontSizeLit 24, ColorLit WHITE, WidthLit 11,
        DurationLit (3 / 2), DurationLit (1 / 2), DurationLit 1, DurationLit 2,
        DurationLit (1 / 2)]
   \<and> filter is_text_literal (literals (issued (construct_chunk k) s))
     = [TextLit (title_text k), TextLit (content_text k)]
   \<and> ((filter is_text_literal (literals (issued (construct_chunk k) s))
        = filter is_text_literal (literals (issued (construct_chunk k') s'))) = (k = k'))"
  by (simp add: issued_construct script_def literals_def title_text_inj content_text_inj)

end
